theory Spec2Isabelle
  imports Main
begin

section \<open>JavaScript values read by the booking-form hook\<close>

text \<open>
  The hook \<open>useBookingForm\<close> branches on JavaScript truthiness throughout. A number is
  truthy unless it is \<open>0\<close> (durations, counts and the recurrence frequency are integers
  here), a string is truthy unless it is empty, and \<open>null\<close>/\<open>undefined\<close> (modelled as
  \<open>None\<close>) are falsy.
\<close>

definition truthy_num :: "int option \<Rightarrow> bool" where
  "truthy_num v = (case v of None \<Rightarrow> False | Some n \<Rightarrow> n \<noteq> 0)"

definition truthy_str :: "string option \<Rightarrow> bool" where
  "truthy_str v = (case v of None \<Rightarrow> False | Some s \<Rightarrow> s \<noteq> [])"

text \<open>\<open>s.startsWith(p)\<close>.\<close>

definition startsWith :: "string \<Rightarrow> string \<Rightarrow> bool" where
  "startsWith s p = (take (length p) s = p)"

text \<open>
  \<open>s.substring(start, end)\<close>: both indices are clamped to \<open>[0, s.length]\<close> and swapped when
  the first exceeds the second.
\<close>

definition substring :: "string \<Rightarrow> int \<Rightarrow> int \<Rightarrow> string" where
  "substring s start stop =
     (let len = int (length s);
          a = min (max start 0) len;
          b = min (max stop 0) len;
          lo = min a b;
          hi = max a b
      in take (nat (hi - lo)) (drop (nat lo) s))"

section \<open>Data model\<close>

text \<open>A form response is a string or an object of named parts (a split name field).\<close>

datatype response_value = Text string | Fields "(string \<times> string) list"

type_synonym responses = "(string \<times> response_value) list"

record recurring_event =
  freq :: int
  occurrences :: int
  interval :: int

record event_metadata =
  multipleDuration :: "int list option"

text \<open>\<open>event.data\<close>; the field \<open>length\<close> of the source is \<open>length_ev\<close> here.\<close>

record event_data =
  isDynamic :: bool
  length_ev :: int
  metadata :: "event_metadata option"
  recurringEvent :: "recurring_event option"
  successRedirectUrl :: "string option"

record booking_data =
  bd_uid :: "string option"
  startTime :: "string option"

record seated_event_data =
  bookingUid :: "string option"

text \<open>What \<open>searchParams?.get(key)\<close> evaluates to.\<close>

datatype query_value = Undefined | Null | Str string

text \<open>
  The values the hook reads at one render: its props, the store selectors, the time
  preferences, the locale, the router query and the search parameters. \<open>routerQuery\<close> is
  the list of the query object's entries in key order; \<open>bookerFormErrorRef_current\<close> says
  whether the error element is mounted.
\<close>

record hook_ctx =
  event :: "event_data option"
  hashedLink :: "string option"
  eventSlug :: "string option"
  rescheduleUid :: "string option"
  bookingData :: "booking_data option"
  timeslot :: "string option"
  seatedEventData :: "seated_event_data option"
  recurringEventCount :: "int option"
  isInstantMeeting :: bool
  duration :: "int option"
  timezone :: string
  language :: string
  username :: "string option"
  routerQuery :: "(string \<times> string) list"
  searchParams :: "(string \<times> string) list option"
  bookerFormErrorRef_current :: bool

text \<open>The object \<open>bookingInput\<close> built by \<open>handleBookEvent\<close>.\<close>

record booking_input =
  in_values :: responses
  in_duration :: int
  in_event :: event_data
  in_date :: string
  in_timeZone :: string
  in_language :: string
  in_rescheduleUid :: "string option"
  in_bookingUid :: "string option"
  in_username :: string
  in_metadata :: "string \<Rightarrow> query_value option"
  in_hashedLink :: "string option"

text \<open>
  The three creation calls. The argument mappers \<open>mapBookingToMutationInput\<close> and
  \<open>mapRecurringBookingToMutationInput\<close> belong to the bookings library; a call is
  recorded with the arguments the hook passes to them.
\<close>

datatype creation_call =
    CreateInstantBooking booking_input
  | CreateRecurringBooking booking_input int
  | CreateBooking booking_input

text \<open>One element of a creation result: \<open>seatReferenceUid\<close> is \<open>None\<close> when the key is absent.\<close>

record booking_response =
  uid :: "string option"
  paymentUid :: "string option"
  seatReferenceUid :: "string option"

record instant_response =
  bookingId :: int
  expires :: int

record payment_link =
  pl_paymentUid :: string
  pl_date :: "string option"
  pl_name :: string
  pl_email :: "response_value option"
  pl_absolute :: bool

datatype nav_target = Url string | PaymentLink payment_link

record redirect_query =
  isSuccessBookingPage :: bool
  allRemainingBookings :: "bool option"
  q_email :: "response_value option"
  eventTypeSlug :: "string option"
  q_seatReferenceUid :: "string option"
  formerTime :: "string option"

record redirect_args =
  r_successRedirectUrl :: string
  r_query :: redirect_query
  r_booking :: booking_response

text \<open>
  Everything the hook does to its surroundings, in the order it does it: writes to the
  store and the form, calls of the three mutations, navigation, toasts, console output,
  scrolling, and the hand-off to the success redirect.
\<close>

datatype effect =
    SetFormValues responses
  | ClearErrors
  | SetError string string
  | Mutate creation_call
  | RouterPush nav_target
  | ShowToast string string
  | ConsoleError string
  | ScrollIntoView
  | BookingSuccessRedirect redirect_args
  | UpdateQueryParam string int
  | SetExpiryTime int

text \<open>
  The mutable state the effects act on: the form's values and errors, the store's
  form-value cache, the \<open>bookingId\<close> query parameter and the stored expiry instant.
\<close>

record booker_state =
  form_responses :: responses
  form_errors :: "(string \<times> string) list"
  store_formValues :: responses
  query_bookingId :: "int option"
  expiryTime :: "int option"

fun apply_effect :: "effect \<Rightarrow> booker_state \<Rightarrow> booker_state" where
  "apply_effect (SetFormValues v) s = s\<lparr>store_formValues := v\<rparr>"
| "apply_effect ClearErrors s = s\<lparr>form_errors := []\<rparr>"
| "apply_effect (SetError k m) s = s\<lparr>form_errors := (k, m) # form_errors s\<rparr>"
| "apply_effect (UpdateQueryParam k v) s =
     (if k = ''bookingId'' then s\<lparr>query_bookingId := Some v\<rparr> else s)"
| "apply_effect (SetExpiryTime e) s = s\<lparr>expiryTime := Some e\<rparr>"
| "apply_effect _ s = s"

fun run :: "effect list \<Rightarrow> booker_state \<Rightarrow> booker_state" where
  "run [] s = s"
| "run (e # es) s = run es (apply_effect e s)"

text \<open>
  Functions of other packages that the hook calls: \<open>getFullName\<close> of the form builder and
  \<open>dayjs(_).toString()\<close>. They are parameters of the model.
\<close>

record externals =
  getFullName :: "response_value option \<Rightarrow> string"
  dayjs_toString :: "string \<Rightarrow> string"

section \<open>Composing the booking request\<close>

text \<open>The conditional expression bound to \<open>validDuration\<close>.\<close>

definition includes_num :: "int list option \<Rightarrow> int \<Rightarrow> bool" where
  "includes_num xs d = (case xs of None \<Rightarrow> False | Some l \<Rightarrow> d \<in> set l)"

definition allowed_durations :: "event_data \<Rightarrow> int list option" where
  "allowed_durations ev = (case metadata ev of None \<Rightarrow> None | Some m \<Rightarrow> multipleDuration m)"

definition validDuration :: "event_data \<Rightarrow> int option \<Rightarrow> int" where
  "validDuration ev d =
     (if isDynamic ev
      then (case d of
              None \<Rightarrow> length_ev ev
            | Some n \<Rightarrow> if n \<noteq> 0 then n else length_ev ev)
      else (case d of
              None \<Rightarrow> length_ev ev
            | Some n \<Rightarrow>
                if n \<noteq> 0 \<and> includes_num (allowed_durations ev) n then n else length_ev ev))"

text \<open>
  The \<open>filter\<close>/\<open>reduce\<close> over the router query's keys: every key that starts with
  \<open>metadata\<close> adds an entry whose name is the key without its first nine characters and
  its last one, and whose value is read from the search parameters.
\<close>

definition searchParams_get :: "(string \<times> string) list option \<Rightarrow> string \<Rightarrow> query_value" where
  "searchParams_get sp k =
     (case sp of
        None \<Rightarrow> Undefined
      | Some ps \<Rightarrow> (case map_of ps k of None \<Rightarrow> Null | Some v \<Rightarrow> Str v))"

definition metadata_name :: "string \<Rightarrow> string" where
  "metadata_name k = substring k (int (length ''metadata['')) (int (length k) - 1)"

definition extract_metadata ::
  "string list \<Rightarrow> (string \<times> string) list option \<Rightarrow> (string \<Rightarrow> query_value option)" where
  "extract_metadata keys sp =
     foldl (\<lambda>m k. m(metadata_name k \<mapsto> searchParams_get sp k)) Map.empty
       (filter (\<lambda>k. startsWith k ''metadata'') keys)"

text \<open>\<open>v || undefined\<close> on an optional string.\<close>

definition or_undefined :: "string option \<Rightarrow> string option" where
  "or_undefined v = (if truthy_str v then v else None)"

definition bookingInput :: "hook_ctx \<Rightarrow> responses \<Rightarrow> event_data \<Rightarrow> string \<Rightarrow> booking_input" where
  "bookingInput c vals ev ts =
     \<lparr> in_values = vals,
       in_duration = validDuration ev (duration c),
       in_event = ev,
       in_date = ts,
       in_timeZone = timezone c,
       in_language = language c,
       in_rescheduleUid = or_undefined (rescheduleUid c),
       in_bookingUid =
         (let b = (case bookingData c of None \<Rightarrow> None | Some bd \<Rightarrow> bd_uid bd)
          in if truthy_str b then b
             else or_undefined
                    (case seatedEventData c of None \<Rightarrow> None | Some sd \<Rightarrow> bookingUid sd)),
       in_username = (case username c of None \<Rightarrow> [] | Some u \<Rightarrow> u),
       in_metadata = extract_metadata (map fst (routerQuery c)) (searchParams c),
       in_hashedLink = hashedLink c \<rparr>"

section \<open>Submitting: \<open>handleBookEvent\<close>\<close>

text \<open>
  The guard of the middle branch,
  \<open>event.data?.recurringEvent?.freq && recurringEventCount && !rescheduleUid\<close>.
\<close>

definition recurring_guard :: "hook_ctx \<Rightarrow> event_data \<Rightarrow> bool" where
  "recurring_guard c ev =
     (truthy_num (case recurringEvent ev of None \<Rightarrow> None | Some r \<Rightarrow> Some (freq r))
      \<and> truthy_num (recurringEventCount c)
      \<and> \<not> truthy_str (rescheduleUid c))"

definition dispatch :: "hook_ctx \<Rightarrow> event_data \<Rightarrow> booking_input \<Rightarrow> effect" where
  "dispatch c ev inp =
     (if isInstantMeeting c then Mutate (CreateInstantBooking inp)
      else (case (recurring_guard c ev, recurringEventCount c) of
              (True, Some n) \<Rightarrow> Mutate (CreateRecurringBooking inp n)
            | _ \<Rightarrow> Mutate (CreateBooking inp)))"

definition handleBookEvent :: "hook_ctx \<Rightarrow> booker_state \<Rightarrow> effect list" where
  "handleBookEvent c s =
     (let vals = form_responses s in
      case timeslot c of
        None \<Rightarrow> []
      | Some ts \<Rightarrow>
          if ts = [] then []
          else [SetFormValues [], ClearErrors] @
            (case event c of
               None \<Rightarrow> [SetError ''globalError'' ''error_booking_event'']
             | Some ev \<Rightarrow>
                 [dispatch c ev (bookingInput c vals ev ts), SetFormValues [], ClearErrors]))"

text \<open>The creation calls among a list of effects, and the effects before the first of them.\<close>

fun creation_calls :: "effect list \<Rightarrow> creation_call list" where
  "creation_calls [] = []"
| "creation_calls (Mutate c # es) = c # creation_calls es"
| "creation_calls (_ # es) = creation_calls es"

fun is_Mutate :: "effect \<Rightarrow> bool" where
  "is_Mutate (Mutate _) = True"
| "is_Mutate _ = False"

definition before_dispatch :: "effect list \<Rightarrow> effect list" where
  "before_dispatch es = takeWhile (\<lambda>e. \<not> is_Mutate e) es"

datatype path = Instant | Recurring | Single

fun path_of :: "creation_call \<Rightarrow> path" where
  "path_of (CreateInstantBooking _) = Instant"
| "path_of (CreateRecurringBooking _ _) = Recurring"
| "path_of (CreateBooking _) = Single"

text \<open>The booking request a creation call carries, and the durations of the requests a
  submission sends.\<close>

fun input_of :: "creation_call \<Rightarrow> booking_input" where
  "input_of (CreateInstantBooking inp) = inp"
| "input_of (CreateRecurringBooking inp _) = inp"
| "input_of (CreateBooking inp) = inp"

definition request_durations :: "hook_ctx \<Rightarrow> booker_state \<Rightarrow> int list" where
  "request_durations c s =
     map (\<lambda>call. in_duration (input_of call)) (creation_calls (handleBookEvent c s))"

section \<open>Settling a creation call\<close>

text \<open>A creation call resolves with a result or rejects with an error.\<close>

datatype 'a outcome = Resolved 'a | Rejected string

definition isRescheduling :: "hook_ctx \<Rightarrow> bool" where
  "isRescheduling c = (truthy_str (rescheduleUid c) \<and> bookingData c \<noteq> None)"

definition former_time :: "externals \<Rightarrow> hook_ctx \<Rightarrow> string option" where
  "former_time ext c =
     (if isRescheduling c then
        (case bookingData c of
           None \<Rightarrow> None
         | Some bd \<Rightarrow>
             (case startTime bd of
                None \<Rightarrow> None
              | Some t \<Rightarrow> if t \<noteq> [] then Some (dayjs_toString ext t) else None))
      else None)"

definition getValues :: "booker_state \<Rightarrow> string \<Rightarrow> response_value option" where
  "getValues s k = map_of (form_responses s) k"

definition success_url :: "hook_ctx \<Rightarrow> string" where
  "success_url c =
     (case event c of
        None \<Rightarrow> []
      | Some ev \<Rightarrow> (case successRedirectUrl ev of None \<Rightarrow> [] | Some u \<Rightarrow> u))"

text \<open>\<open>bookerFormErrorRef && bookerFormErrorRef.current?.scrollIntoView(...)\<close>.\<close>

definition scroll_to_error :: "hook_ctx \<Rightarrow> effect list" where
  "scroll_to_error c = (if bookerFormErrorRef_current c then [ScrollIntoView] else [])"

definition createBookingMutation_onSuccess ::
  "externals \<Rightarrow> hook_ctx \<Rightarrow> booker_state \<Rightarrow> booking_response \<Rightarrow> effect list" where
  "createBookingMutation_onSuccess ext c s responseData =
     (let fullName = getFullName ext (getValues s ''name'') in
      (case paymentUid responseData of
         None \<Rightarrow> []
       | Some p \<Rightarrow>
           if p \<noteq> [] then
             [RouterPush (PaymentLink
                \<lparr> pl_paymentUid = p, pl_date = timeslot c, pl_name = fullName,
                  pl_email = getValues s ''email'', pl_absolute = False \<rparr>)]
           else [])
      @ (if \<not> truthy_str (uid responseData)
         then [ConsoleError ''No uid returned from createBookingMutation'']
         else [BookingSuccessRedirect
                 \<lparr> r_successRedirectUrl = success_url c,
                   r_query =
                     \<lparr> isSuccessBookingPage = True,
                       allRemainingBookings = None,
                       q_email = getValues s ''email'',
                       eventTypeSlug = eventSlug c,
                       q_seatReferenceUid = seatReferenceUid responseData,
                       formerTime = former_time ext c \<rparr>,
                   r_booking = responseData \<rparr>]))"

definition createBookingMutation_onError :: "hook_ctx \<Rightarrow> string \<Rightarrow> effect list" where
  "createBookingMutation_onError c err = scroll_to_error c"

definition createInstantBookingMutation_onSuccess :: "instant_response \<Rightarrow> effect list" where
  "createInstantBookingMutation_onSuccess responseData =
     [UpdateQueryParam ''bookingId'' (bookingId responseData),
      SetExpiryTime (expires responseData)]"

definition createInstantBookingMutation_onError :: "hook_ctx \<Rightarrow> string \<Rightarrow> effect list" where
  "createInstantBookingMutation_onError c err =
     ConsoleError ''Error creating instant booking'' # scroll_to_error c"

text \<open>\<open>responseData[0] || {}\<close>: the first occurrence, or an object without fields.\<close>

definition first_booking :: "booking_response list \<Rightarrow> booking_response" where
  "first_booking responseData =
     (case responseData of
        [] \<Rightarrow> \<lparr> uid = None, paymentUid = None, seatReferenceUid = None \<rparr>
      | b # _ \<Rightarrow> b)"

definition createRecurringBookingMutation_onSuccess ::
  "externals \<Rightarrow> hook_ctx \<Rightarrow> booker_state \<Rightarrow> booking_response list \<Rightarrow> effect list" where
  "createRecurringBookingMutation_onSuccess ext c s responseData =
     (let booking = first_booking responseData in
      if \<not> truthy_str (uid booking)
      then [ConsoleError ''No uid returned from createRecurringBookingMutation'']
      else [BookingSuccessRedirect
              \<lparr> r_successRedirectUrl = success_url c,
                r_query =
                  \<lparr> isSuccessBookingPage = True,
                    allRemainingBookings = Some True,
                    q_email = getValues s ''email'',
                    eventTypeSlug = eventSlug c,
                    q_seatReferenceUid = None,
                    formerTime = former_time ext c \<rparr>,
                r_booking = booking \<rparr>])"

text \<open>
  What the hook's callbacks do when a creation call settles. The recurring mutation is
  created with an \<open>onSuccess\<close> callback only, so nothing of the hook runs when it rejects.
\<close>

definition createBookingMutation_settled ::
  "externals \<Rightarrow> hook_ctx \<Rightarrow> booker_state \<Rightarrow> booking_response outcome \<Rightarrow> effect list" where
  "createBookingMutation_settled ext c s out =
     (case out of
        Resolved r \<Rightarrow> createBookingMutation_onSuccess ext c s r
      | Rejected err \<Rightarrow> createBookingMutation_onError c err)"

definition createInstantBookingMutation_settled ::
  "hook_ctx \<Rightarrow> instant_response outcome \<Rightarrow> effect list" where
  "createInstantBookingMutation_settled c out =
     (case out of
        Resolved r \<Rightarrow> createInstantBookingMutation_onSuccess r
      | Rejected err \<Rightarrow> createInstantBookingMutation_onError c err)"

definition createRecurringBookingMutation_settled ::
  "externals \<Rightarrow> hook_ctx \<Rightarrow> booker_state \<Rightarrow> booking_response list outcome \<Rightarrow> effect list" where
  "createRecurringBookingMutation_settled ext c s out =
     (case out of
        Resolved r \<Rightarrow> createRecurringBookingMutation_onSuccess ext c s r
      | Rejected err \<Rightarrow> [])"

fun is_redirect :: "effect \<Rightarrow> bool" where
  "is_redirect (BookingSuccessRedirect _) = True"
| "is_redirect _ = False"

fun is_payment_push :: "effect \<Rightarrow> bool" where
  "is_payment_push (RouterPush (PaymentLink _)) = True"
| "is_payment_push _ = False"

fun is_navigation :: "effect \<Rightarrow> bool" where
  "is_navigation (RouterPush _) = True"
| "is_navigation _ = False"

fun is_toast :: "effect \<Rightarrow> bool" where
  "is_toast (ShowToast _ _) = True"
| "is_toast _ = False"

section \<open>The instant-booking poller\<close>

text \<open>
  Modelled from the spec: \<open>bookingMetadataSchema\<close> of the Prisma utilities is not part of
  the sources at hand. A metadata payload is either malformed, and parsing it throws, or
  an object whose \<open>videoCallUrl\<close> field is optional, and parsing returns that field.
\<close>

datatype raw_metadata = MalformedMetadata | MetadataObject "string option"

fun bookingMetadataSchema_parse :: "raw_metadata \<Rightarrow> unit + string option" where
  "bookingMetadataSchema_parse MalformedMetadata = Inl ()"
| "bookingMetadataSchema_parse (MetadataObject u) = Inr u"

record poll_booking =
  pb_metadata :: "raw_metadata option"

record poll_data =
  booking :: "poll_booking option"

text \<open>\<open>data.booking?.metadata || {}\<close>.\<close>

definition metadata_or_empty :: "poll_data \<Rightarrow> raw_metadata" where
  "metadata_or_empty data =
     (case booking data of
        None \<Rightarrow> MetadataObject None
      | Some b \<Rightarrow> (case pb_metadata b of None \<Rightarrow> MetadataObject None | Some m \<Rightarrow> m))"

definition instantBooking_onSuccess :: "poll_data \<Rightarrow> effect list" where
  "instantBooking_onSuccess data =
     ShowToast ''something_went_wrong_on_our_end'' ''error'' #
     (case bookingMetadataSchema_parse (metadata_or_empty data) of
        Inl _ \<Rightarrow> [ShowToast ''something_went_wrong_on_our_end'' ''error'']
      | Inr locationVideoCallUrl \<Rightarrow>
          (case locationVideoCallUrl of
             None \<Rightarrow> [ShowToast ''something_went_wrong_on_our_end'' ''error'']
           | Some u \<Rightarrow>
               if u \<noteq> [] then [RouterPush (Url u)]
               else [ShowToast ''something_went_wrong_on_our_end'' ''error'']))"

text \<open>
  \<open>expiryTime && new Date(expiryTime) < new Date()\<close>, with instants in milliseconds and the
  clock reading \<open>now\<close> as an argument.
\<close>

definition hasInstantMeetingTokenExpired :: "booker_state \<Rightarrow> int \<Rightarrow> bool" where
  "hasInstantMeetingTokenExpired s now =
     (case expiryTime s of None \<Rightarrow> False | Some e \<Rightarrow> e < now)"

text \<open>\<open>parseInt(getQueryParam("bookingId") || "0")\<close> for a parameter that holds an integer.\<close>

definition parsed_bookingId :: "booker_state \<Rightarrow> int" where
  "parsed_bookingId s = (case query_bookingId s of None \<Rightarrow> 0 | Some n \<Rightarrow> n)"

text \<open>The \<open>enabled\<close> option of the poll query.\<close>

definition instantBooking_enabled :: "booker_state \<Rightarrow> int \<Rightarrow> bool" where
  "instantBooking_enabled s now =
     (parsed_bookingId s \<noteq> 0 \<and> \<not> hasInstantMeetingTokenExpired s now)"

section \<open>Example inputs\<close>

text \<open>
  A stand-in for \<open>getFullName\<close>, an event with a recurrence policy and three allowed
  durations, a render with a slot selected and three occurrences requested, and a form
  holding a name and an email. The theorems are instantiated at these.
\<close>

definition example_getFullName :: "response_value option \<Rightarrow> string" where
  "example_getFullName v =
     (case v of
        None \<Rightarrow> []
      | Some (Text t) \<Rightarrow> t
      | Some (Fields fs) \<Rightarrow> concat (map snd fs))"

definition example_externals :: externals where
  "example_externals = \<lparr> getFullName = example_getFullName, dayjs_toString = id \<rparr>"

definition example_event :: event_data where
  "example_event =
     \<lparr> isDynamic = False, length_ev = 30,
       metadata = Some \<lparr> multipleDuration = Some [15, 30, 60] \<rparr>,
       recurringEvent = Some \<lparr> freq = 2, occurrences = 12, interval = 1 \<rparr>,
       successRedirectUrl = None \<rparr>"

definition example_ctx :: hook_ctx where
  "example_ctx =
     \<lparr> event = Some example_event, hashedLink = None, eventSlug = Some ''intro'',
       rescheduleUid = None, bookingData = None,
       timeslot = Some ''2024-01-15T10:00:00.000Z'', seatedEventData = None,
       recurringEventCount = Some 3, isInstantMeeting = False, duration = Some 60,
       timezone = ''Europe/London'', language = ''en'', username = Some ''ada'',
       routerQuery = [(''metadata[a]'', ''1''), (''metadata[b]'', ''2''), (''other'', ''3'')],
       searchParams = Some [(''metadata[a]'', ''1''), (''metadata[b]'', ''2''), (''other'', ''3'')],
       bookerFormErrorRef_current = True \<rparr>"

definition example_state :: booker_state where
  "example_state =
     \<lparr> form_responses = [(''name'', Text ''Ada Lovelace''), (''email'', Text ''ada@example.com'')],
       form_errors = [(''globalError'', ''error_booking_event'')],
       store_formValues = [(''name'', Text ''Ada'')],
       query_bookingId = None, expiryTime = None \<rparr>"

text \<open>
  The same render for an event whose recurrence policy has the frequency \<open>0\<close>, the first
  member of the frequency enumeration (yearly).
\<close>

definition example_yearly_ctx :: hook_ctx where
  "example_yearly_ctx =
     example_ctx\<lparr> event :=
       Some (example_event\<lparr> recurringEvent := Some \<lparr> freq = 0, occurrences = 12, interval = 1 \<rparr> \<rparr>) \<rparr>"

text \<open>A single creation result that carries both a uid and a payment reference.\<close>

definition example_paid_response :: booking_response where
  "example_paid_response =
     \<lparr> uid = Some ''bk_1'', paymentUid = Some ''pay_1'', seatReferenceUid = None \<rparr>"

text \<open>
  A poll response whose metadata holds a meeting location, and a state whose stored
  expiry instant is the millisecond \<open>1000\<close>.
\<close>

definition example_poll_data :: poll_data where
  "example_poll_data =
     \<lparr> booking = Some \<lparr> pb_metadata =
         Some (MetadataObject (Some ''https://meet.example.com/room-1'')) \<rparr> \<rparr>"

definition example_expired_state :: booker_state where
  "example_expired_state = example_state\<lparr> query_bookingId := Some 42, expiryTime := Some 1000 \<rparr>"

text \<open>
  The pattern the specification names for metadata keys, \<open>metadata[<name>]\<close>: the prefix
  \<open>metadata[\<close>, any name, and a closing bracket. It is stated here to be compared with
  the test the hook makes, which is \<open>startsWith\<close> alone.
\<close>

definition spec_bracket_pattern :: "string \<Rightarrow> bool" where
  "spec_bracket_pattern k =
     (startsWith k ''metadata['' \<and> 10 \<le> length k \<and> last k = CHR '']'')"

section \<open>Route selection\<close>

text \<open>
  With a slot selected and the event data loaded, a submission makes exactly one creation
  call. The middle guard is a truthiness test: the recurring call is made when the
  policy's frequency and the requested count are non-zero numbers and the reschedule uid
  is absent or empty.
\<close>

lemma handleBookEvent_one_path:
  assumes "timeslot c = Some ts" and "ts \<noteq> []" and "event c = Some ev"
  shows "map path_of (creation_calls (handleBookEvent c s)) =
           [if isInstantMeeting c then Instant
            else if (\<exists>r. recurringEvent ev = Some r \<and> freq r \<noteq> 0)
                    \<and> (\<exists>n. recurringEventCount c = Some n \<and> n \<noteq> 0)
                    \<and> \<not> truthy_str (rescheduleUid c)
            then Recurring
            else Single]"
  using assms
  by (auto simp: handleBookEvent_def dispatch_def recurring_guard_def truthy_num_def
      split: option.splits bool.splits)

lemma handleBookEvent_one_path_witness:
  "map path_of (creation_calls (handleBookEvent example_ctx example_state)) = [Recurring]
   \<and> map path_of (creation_calls
        (handleBookEvent (example_ctx\<lparr>isInstantMeeting := True\<rparr>) example_state)) = [Instant]
   \<and> map path_of (creation_calls
        (handleBookEvent (example_ctx\<lparr>rescheduleUid := Some ''old''\<rparr>) example_state)) = [Single]"
  using handleBookEvent_one_path [of example_ctx "''2024-01-15T10:00:00.000Z''" example_event example_state]
    handleBookEvent_one_path [of "example_ctx\<lparr>isInstantMeeting := True\<rparr>" "''2024-01-15T10:00:00.000Z''" example_event example_state]
    handleBookEvent_one_path [of "example_ctx\<lparr>rescheduleUid := Some ''old''\<rparr>" "''2024-01-15T10:00:00.000Z''" example_event example_state]
  by (simp add: example_ctx_def example_event_def truthy_str_def)

text \<open>
  C1. For every submission with a selected timeslot and loaded event data exactly one
  creation path is invoked: the instant path when the instant-meeting flag is set;
  otherwise the recurring path when the event has a recurrence policy, a recurrence
  count is set and the submission is not a reschedule; otherwise the single path.
  Evaluated at an event with a yearly recurrence policy, three occurrences requested, no
  reschedule and no instant-meeting flag, the hook invokes the single path: the guard
  reads the policy's frequency as a boolean, and the yearly frequency is \<open>0\<close>.
\<close>

theorem yearly_policy_takes_single_path:
  "event example_yearly_ctx =
     Some (example_event\<lparr> recurringEvent := Some \<lparr> freq = 0, occurrences = 12, interval = 1 \<rparr> \<rparr>)
   \<and> recurringEventCount example_yearly_ctx = Some 3
   \<and> rescheduleUid example_yearly_ctx = None
   \<and> \<not> isInstantMeeting example_yearly_ctx
   \<and> timeslot example_yearly_ctx = Some ''2024-01-15T10:00:00.000Z''
   \<and> map path_of (creation_calls (handleBookEvent example_yearly_ctx example_state)) = [Single]"
  by (simp add: example_yearly_ctx_def example_ctx_def example_event_def handleBookEvent_def
      dispatch_def recurring_guard_def truthy_num_def truthy_str_def)

section \<open>Duration resolution\<close>

text \<open>A submission with a slot and event data sends one request, the composed \<open>bookingInput\<close>.\<close>

lemma creation_calls_handleBookEvent:
  assumes "timeslot c = Some ts" and "ts \<noteq> []" and "event c = Some ev"
  shows "map input_of (creation_calls (handleBookEvent c s)) =
           [bookingInput c (form_responses s) ev ts]"
  using assms
  by (auto simp: handleBookEvent_def dispatch_def Let_def split: option.splits bool.splits)

text \<open>
  C2. Every composed booking request carries the resolved duration, on whichever path it
  is sent. For a dynamic event that is the selected duration when one is selected, and
  the event's length otherwise. For any other event it is the selected duration when
  that duration is in the event's allowed durations, and the event's length for every
  other selection and for none. A duration counts as selected when the store holds a
  non-zero number.
\<close>

theorem composed_request_duration:
  assumes "timeslot c = Some ts" and "ts \<noteq> []" and "event c = Some ev"
  shows "in_duration (bookingInput c (form_responses s) ev ts) = validDuration ev (duration c)
    \<and> request_durations c s = [validDuration ev (duration c)]
    \<and> (isDynamic ev \<and> duration c = Some n \<and> n \<noteq> 0 \<longrightarrow> request_durations c s = [n])
    \<and> (isDynamic ev \<and> (duration c = None \<or> duration c = Some 0)
          \<longrightarrow> request_durations c s = [length_ev ev])
    \<and> (\<not> isDynamic ev \<and> duration c = Some n \<and> n \<noteq> 0
          \<and> allowed_durations ev = Some ds \<and> n \<in> set ds
          \<longrightarrow> request_durations c s = [n])
    \<and> (\<not> isDynamic ev
          \<and> \<not> (\<exists>m ms. duration c = Some m \<and> m \<noteq> 0
                   \<and> allowed_durations ev = Some ms \<and> m \<in> set ms)
          \<longrightarrow> request_durations c s = [length_ev ev])"
proof -
  have i: "in_duration (bookingInput c (form_responses s) ev ts) = validDuration ev (duration c)"
    by (simp add: bookingInput_def)
  have "request_durations c s =
          map in_duration (map input_of (creation_calls (handleBookEvent c s)))"
    by (simp add: request_durations_def)
  then have r: "request_durations c s = [validDuration ev (duration c)]"
    using creation_calls_handleBookEvent [OF assms, of s] i by simp
  show ?thesis
    unfolding r using i
    by (auto simp: validDuration_def includes_num_def split: option.splits)
qed

theorem composed_request_duration_witness:
  "request_durations (example_ctx\<lparr>event := Some (example_event\<lparr>isDynamic := True\<rparr>),
       duration := Some 45\<rparr>) example_state = [45]
   \<and> request_durations (example_ctx\<lparr>event := Some (example_event\<lparr>isDynamic := True\<rparr>),
       duration := None\<rparr>) example_state = [30]
   \<and> request_durations example_ctx example_state = [60]
   \<and> request_durations (example_ctx\<lparr>duration := Some 45\<rparr>) example_state = [30]
   \<and> request_durations (example_ctx\<lparr>isInstantMeeting := True, duration := Some 45\<rparr>)
        example_state = [30]"
  using composed_request_duration
      [of "example_ctx\<lparr>event := Some (example_event\<lparr>isDynamic := True\<rparr>), duration := Some 45\<rparr>"
          "''2024-01-15T10:00:00.000Z''" "example_event\<lparr>isDynamic := True\<rparr>" example_state 45 "[]"]
    composed_request_duration
      [of "example_ctx\<lparr>event := Some (example_event\<lparr>isDynamic := True\<rparr>), duration := None\<rparr>"
          "''2024-01-15T10:00:00.000Z''" "example_event\<lparr>isDynamic := True\<rparr>" example_state 0 "[]"]
    composed_request_duration
      [of example_ctx "''2024-01-15T10:00:00.000Z''" example_event example_state 60 "[15, 30, 60]"]
    composed_request_duration
      [of "example_ctx\<lparr>duration := Some 45\<rparr>" "''2024-01-15T10:00:00.000Z''" example_event
          example_state 45 "[15, 30, 60]"]
    composed_request_duration
      [of "example_ctx\<lparr>isInstantMeeting := True, duration := Some 45\<rparr>"
          "''2024-01-15T10:00:00.000Z''" example_event example_state 45 "[15, 30, 60]"]
  by (simp add: example_ctx_def example_event_def allowed_durations_def validDuration_def
      includes_num_def)

section \<open>Results without a usable uid\<close>

text \<open>
  C4. A recurring creation result whose occurrence sequence is empty, or whose first
  element has no uid or an empty one, is handled as a failure: the handler writes one
  console error and hands nothing to the success redirect.
\<close>

theorem recurring_without_usable_uid_is_failure:
  assumes "responseData = [] \<or> (\<exists>b bs. responseData = b # bs \<and> \<not> truthy_str (uid b))"
  shows "createRecurringBookingMutation_settled ext c s (Resolved responseData) =
           [ConsoleError ''No uid returned from createRecurringBookingMutation'']
         \<and> filter is_redirect
              (createRecurringBookingMutation_settled ext c s (Resolved responseData)) = []"
  using assms
  by (auto simp: createRecurringBookingMutation_settled_def
      createRecurringBookingMutation_onSuccess_def first_booking_def truthy_str_def)

theorem recurring_without_usable_uid_is_failure_witness:
  "filter is_redirect
     (createRecurringBookingMutation_settled example_externals example_ctx example_state
        (Resolved [])) = []
   \<and> filter is_redirect
     (createRecurringBookingMutation_settled example_externals example_ctx example_state
        (Resolved [\<lparr> uid = Some [], paymentUid = None, seatReferenceUid = None \<rparr>,
                   \<lparr> uid = Some ''occ2'', paymentUid = None, seatReferenceUid = None \<rparr>])) = []"
  using recurring_without_usable_uid_is_failure
      [of "[]" example_externals example_ctx example_state]
    recurring_without_usable_uid_is_failure
      [of "[\<lparr> uid = Some [], paymentUid = None, seatReferenceUid = None \<rparr>,
            \<lparr> uid = Some ''occ2'', paymentUid = None, seatReferenceUid = None \<rparr>]"
          example_externals example_ctx example_state]
  by (simp add: truthy_str_def)

text \<open>
  C10. A single creation result with a payment reference and no usable uid still makes
  the payment-link navigation, because the push comes before the uid check; after it the
  handler only writes a console error: no success redirect, no toast, no form error and
  no scrolling.
\<close>

theorem payment_push_precedes_uid_check:
  assumes "paymentUid r = Some p" and "p \<noteq> []" and "\<not> truthy_str (uid r)"
  shows "createBookingMutation_onSuccess ext c s r =
           [RouterPush (PaymentLink
              \<lparr> pl_paymentUid = p, pl_date = timeslot c,
                pl_name = getFullName ext (getValues s ''name''),
                pl_email = getValues s ''email'', pl_absolute = False \<rparr>),
            ConsoleError ''No uid returned from createBookingMutation'']"
  using assms by (simp add: createBookingMutation_onSuccess_def)

theorem payment_push_precedes_uid_check_witness:
  "createBookingMutation_onSuccess example_externals example_ctx example_state
     \<lparr> uid = None, paymentUid = Some ''pay_1'', seatReferenceUid = None \<rparr> =
   [RouterPush (PaymentLink
      \<lparr> pl_paymentUid = ''pay_1'', pl_date = Some ''2024-01-15T10:00:00.000Z'',
        pl_name = ''Ada Lovelace'', pl_email = Some (Text ''ada@example.com''),
        pl_absolute = False \<rparr>),
    ConsoleError ''No uid returned from createBookingMutation'']"
  using payment_push_precedes_uid_check
      [of "\<lparr> uid = None, paymentUid = Some ''pay_1'', seatReferenceUid = None \<rparr>" "''pay_1''"
          example_externals example_ctx example_state]
  by (simp add: truthy_str_def example_externals_def example_ctx_def example_state_def
      getValues_def example_getFullName_def)

section \<open>Payment hand-off\<close>

text \<open>
  With a payment reference in the result, the handler's first effect is the navigation
  to the payment link built from the payment reference, the selected slot, the
  attendee's full name and the email.
\<close>

lemma payment_push_is_first:
  assumes "paymentUid r = Some p" and "p \<noteq> []"
  shows "hd (createBookingMutation_onSuccess ext c s r) =
           RouterPush (PaymentLink
              \<lparr> pl_paymentUid = p, pl_date = timeslot c,
                pl_name = getFullName ext (getValues s ''name''),
                pl_email = getValues s ''email'', pl_absolute = False \<rparr>)"
  using assms by (simp add: createBookingMutation_onSuccess_def)

text \<open>
  C6. For a single creation result with a payment reference the payment hand-off is to
  take the place of the normal success redirect, which is not dispatched alongside it.
  Evaluated at a result with the uid \<open>bk_1\<close> and the payment reference \<open>pay_1\<close>, the
  handler pushes the payment link and then, having no return after the push, dispatches
  the success redirect as well.
\<close>

theorem payment_push_then_success_redirect:
  "truthy_str (paymentUid example_paid_response)
   \<and> createBookingMutation_onSuccess example_externals example_ctx example_state
        example_paid_response =
      [RouterPush (PaymentLink
         \<lparr> pl_paymentUid = ''pay_1'', pl_date = Some ''2024-01-15T10:00:00.000Z'',
           pl_name = ''Ada Lovelace'', pl_email = Some (Text ''ada@example.com''),
           pl_absolute = False \<rparr>),
       BookingSuccessRedirect
         \<lparr> r_successRedirectUrl = [],
           r_query =
             \<lparr> isSuccessBookingPage = True, allRemainingBookings = None,
               q_email = Some (Text ''ada@example.com''), eventTypeSlug = Some ''intro'',
               q_seatReferenceUid = None, formerTime = None \<rparr>,
           r_booking = example_paid_response \<rparr>]"
  by (simp add: createBookingMutation_onSuccess_def example_paid_response_def truthy_str_def
      example_externals_def example_ctx_def example_state_def getValues_def
      example_getFullName_def success_url_def example_event_def former_time_def
      isRescheduling_def)

section \<open>Failed creation calls\<close>

text \<open>No effect of the hook writes the form's response values.\<close>

lemma run_form_responses: "form_responses (run es s) = form_responses s"
proof (induction es arbitrary: s)
  case Nil
  then show ?case by simp
next
  case (Cons e es)
  have "form_responses (apply_effect e s) = form_responses s"
    by (cases "(e, s)" rule: apply_effect.cases) simp_all
  with Cons show ?case by simp
qed

text \<open>
  C7, as the claim states it: a result without a usable identifier is handled like a
  rejected call, logged and with the error surface scrolled into view. On the single
  path the rejection scrolls and the result without a uid only writes to the console.
\<close>

theorem missing_uid_not_scrolled_counterexample:
  "bookerFormErrorRef_current example_ctx
   \<and> createBookingMutation_settled example_externals example_ctx example_state
        (Rejected ''Network Error'') = [ScrollIntoView]
   \<and> createBookingMutation_settled example_externals example_ctx example_state
        (Resolved \<lparr> uid = None, paymentUid = None, seatReferenceUid = None \<rparr>) =
       [ConsoleError ''No uid returned from createBookingMutation'']"
  by (simp add: createBookingMutation_settled_def createBookingMutation_onError_def
      scroll_to_error_def createBookingMutation_onSuccess_def truthy_str_def example_ctx_def)

text \<open>
  C7, amended. When the error element is mounted, a rejected creation call scrolls it
  into view on the single and on the instant path, and the instant path logs the
  rejection first. A result without a usable uid is not handled like a rejection: on the
  single path it is logged to the console, nothing is handed to the success redirect and
  nothing is scrolled; on the recurring path the console error is the only effect.
\<close>

theorem creation_failure_handling:
  "(bookerFormErrorRef_current c \<longrightarrow>
      ScrollIntoView \<in> set (createBookingMutation_settled ext c s (Rejected err))
      \<and> createInstantBookingMutation_settled c (Rejected err) =
          [ConsoleError ''Error creating instant booking'', ScrollIntoView])
   \<and> (\<not> truthy_str (uid r) \<longrightarrow>
        ConsoleError ''No uid returned from createBookingMutation''
          \<in> set (createBookingMutation_settled ext c s (Resolved r))
        \<and> filter is_redirect (createBookingMutation_settled ext c s (Resolved r)) = []
        \<and> ScrollIntoView \<notin> set (createBookingMutation_settled ext c s (Resolved r)))
   \<and> (\<not> truthy_str (uid (first_booking rs)) \<longrightarrow>
        createRecurringBookingMutation_settled ext c s (Resolved rs) =
          [ConsoleError ''No uid returned from createRecurringBookingMutation''])"
  by (auto simp: createBookingMutation_settled_def createBookingMutation_onError_def
      scroll_to_error_def createInstantBookingMutation_settled_def
      createInstantBookingMutation_onError_def createBookingMutation_onSuccess_def
      createRecurringBookingMutation_settled_def createRecurringBookingMutation_onSuccess_def
      split: option.splits)

theorem creation_failure_handling_witness:
  "ScrollIntoView \<in> set (createBookingMutation_settled example_externals example_ctx
      example_state (Rejected ''Network Error''))
   \<and> createInstantBookingMutation_settled example_ctx (Rejected ''Network Error'') =
       [ConsoleError ''Error creating instant booking'', ScrollIntoView]
   \<and> filter is_redirect (createBookingMutation_settled example_externals example_ctx
        example_state (Resolved \<lparr> uid = None, paymentUid = None, seatReferenceUid = None \<rparr>)) = []
   \<and> createRecurringBookingMutation_settled example_externals example_ctx example_state
        (Resolved []) = [ConsoleError ''No uid returned from createRecurringBookingMutation'']"
  using creation_failure_handling
      [of example_ctx example_externals example_state "''Network Error''"
          "\<lparr> uid = None, paymentUid = None, seatReferenceUid = None \<rparr>" "[]"]
  by (simp add: example_ctx_def truthy_str_def first_booking_def)

text \<open>
  C8. The handling of a rejected creation call leaves the form's response values as they
  were, on each of the three paths. A submission that dispatches a creation call has, by
  then, emptied the store's form-value cache and cleared the form errors: these two
  writes are the only effects before the call, and the submission itself leaves the
  response values unchanged.
\<close>

theorem failure_keeps_responses_submission_clears:
  "form_responses (run (createBookingMutation_settled ext c s (Rejected err)) s) = form_responses s
   \<and> form_responses (run (createInstantBookingMutation_settled c (Rejected err)) s) = form_responses s
   \<and> form_responses (run (createRecurringBookingMutation_settled ext c s (Rejected err)) s)
       = form_responses s
   \<and> (creation_calls (handleBookEvent c s) \<noteq> [] \<longrightarrow>
        take 2 (handleBookEvent c s) = [SetFormValues [], ClearErrors]
        \<and> before_dispatch (handleBookEvent c s) = [SetFormValues [], ClearErrors]
        \<and> store_formValues (run (before_dispatch (handleBookEvent c s)) s) = []
        \<and> form_errors (run (before_dispatch (handleBookEvent c s)) s) = []
        \<and> form_responses (run (handleBookEvent c s) s) = form_responses s)"
proof (intro conjI impI)
  assume d: "creation_calls (handleBookEvent c s) \<noteq> []"
  then obtain ts ev where h: "handleBookEvent c s =
      [SetFormValues [], ClearErrors, dispatch c ev (bookingInput c (form_responses s) ev ts),
       SetFormValues [], ClearErrors]"
    by (auto simp: handleBookEvent_def split: option.splits if_splits)
  have m: "is_Mutate (dispatch c ev inp)" for inp
    by (simp add: dispatch_def split: option.splits bool.splits)
  show "take 2 (handleBookEvent c s) = [SetFormValues [], ClearErrors]"
    by (simp add: h)
  show b: "before_dispatch (handleBookEvent c s) = [SetFormValues [], ClearErrors]"
    by (simp add: h before_dispatch_def m)
  show "store_formValues (run (before_dispatch (handleBookEvent c s)) s) = []"
    by (simp add: b)
  show "form_errors (run (before_dispatch (handleBookEvent c s)) s) = []"
    by (simp add: b)
qed (simp_all only: run_form_responses)

theorem failure_keeps_responses_submission_clears_witness:
  "form_responses (run (createBookingMutation_settled example_externals example_ctx example_state
      (Rejected ''Network Error'')) example_state)
     = [(''name'', Text ''Ada Lovelace''), (''email'', Text ''ada@example.com'')]
   \<and> creation_calls (handleBookEvent example_ctx example_state) \<noteq> []
   \<and> store_formValues (run (before_dispatch (handleBookEvent example_ctx example_state))
        example_state) = []
   \<and> form_errors (run (before_dispatch (handleBookEvent example_ctx example_state))
        example_state) = []"
  using failure_keeps_responses_submission_clears
      [of example_externals example_ctx example_state "''Network Error''"]
  by (simp add: example_state_def handleBookEvent_def example_ctx_def dispatch_def
      recurring_guard_def truthy_num_def truthy_str_def example_event_def)

section \<open>Metadata extraction\<close>

lemma startsWith_iff: "startsWith s p \<longleftrightarrow> (\<exists>r. s = p @ r)"
proof
  assume "startsWith s p"
  then have "s = p @ drop (length p) s"
    by (metis startsWith_def append_take_drop_id)
  then show "\<exists>r. s = p @ r" ..
next
  assume "\<exists>r. s = p @ r"
  then show "startsWith s p" by (auto simp: startsWith_def)
qed

lemma spec_bracket_pattern_iff:
  "spec_bracket_pattern k \<longleftrightarrow> (\<exists>n. k = ''metadata['' @ n @ '']'')"
proof
  assume h: "spec_bracket_pattern k"
  then obtain r where k: "k = ''metadata['' @ r"
    by (auto simp: spec_bracket_pattern_def startsWith_iff)
  from h k have "r \<noteq> []" and "last r = CHR '']''"
    by (auto simp: spec_bracket_pattern_def split: if_splits)
  then have "r = butlast r @ '']''"
    by (metis append_butlast_last_id)
  with k show "\<exists>n. k = ''metadata['' @ n @ '']''" by blast
next
  assume "\<exists>n. k = ''metadata['' @ n @ '']''"
  then show "spec_bracket_pattern k"
    by (auto simp: spec_bracket_pattern_def startsWith_iff)
qed

text \<open>
  For a key of the form \<open>metadata[<name>]\<close> the entry's name is \<open><name>\<close>. The cut assumes
  that form: the key \<open>metadata\<close> itself, shorter than the prefix that is cut, is named \<open>a\<close>.
\<close>

lemma metadata_name_bracket: "metadata_name (''metadata['' @ n @ '']'') = n"
  by (simp add: metadata_name_def substring_def Let_def)

lemma metadata_name_short_key: "metadata_name ''metadata'' = ''a''"
  by (simp add: metadata_name_def substring_def Let_def)

text \<open>The entries come from the keys that pass the \<open>startsWith\<close> filter.\<close>

lemma dom_foldl_upd:
  "dom (foldl (\<lambda>m k. m(f k \<mapsto> g k)) m0 ks) = dom m0 \<union> f ` set ks"
  by (induction ks arbitrary: m0) auto

lemma dom_extract_metadata:
  "dom (extract_metadata keys sp) =
     metadata_name ` {k \<in> set keys. startsWith k ''metadata''}"
  by (simp add: extract_metadata_def dom_foldl_upd)

text \<open>The query \<open>metadata[a]=1&metadata[b]=2&other=3\<close> gives \<open>{a: "1", b: "2"}\<close>.\<close>

lemma extract_metadata_bracket_keys:
  "extract_metadata [''metadata[a]'', ''metadata[b]'', ''other'']
     (Some [(''metadata[a]'', ''1''), (''metadata[b]'', ''2''), (''other'', ''3'')])
   = [''a'' \<mapsto> Str ''1'', ''b'' \<mapsto> Str ''2'']"
  by (simp add: extract_metadata_def startsWith_def metadata_name_def substring_def
      Let_def searchParams_get_def)

text \<open>
  C9. Metadata extraction maps exactly the query parameters whose keys match
  \<open>metadata[<name>]\<close> into the request's metadata. Evaluated at the query
  \<open>metadata_source=ad&other=3\<close>, whose keys do not match the pattern, the request metadata
  is \<open>{sourc: "ad"}\<close>: the filter tests the prefix \<open>metadata\<close> only, and the name is cut
  as if the key had the brackets.
\<close>

theorem metadata_prefix_key_is_mapped:
  "\<not> spec_bracket_pattern ''metadata_source''
   \<and> extract_metadata [''metadata_source'', ''other'']
        (Some [(''metadata_source'', ''ad''), (''other'', ''3'')])
      = [''sourc'' \<mapsto> Str ''ad'']"
  by (simp add: spec_bracket_pattern_def startsWith_def extract_metadata_def
      metadata_name_def substring_def Let_def searchParams_get_def)

section \<open>Polling for the instant meeting's location\<close>

text \<open>Every poll response starts with the error toast, before the payload is looked at.\<close>

lemma instantBooking_onSuccess_always_toasts:
  "hd (instantBooking_onSuccess data) = ShowToast ''something_went_wrong_on_our_end'' ''error''"
  by (simp add: instantBooking_onSuccess_def)

text \<open>
  C5. A poll response whose metadata carries a location makes the poller navigate to it,
  and no error is to be shown for such a response. Evaluated at a response with the
  location \<open>https://meet.example.com/room-1\<close>, the handler shows the error toast and then
  navigates: the toast at the head of the \<open>try\<close> block is not conditional.
\<close>

theorem toast_on_valid_location:
  "instantBooking_onSuccess example_poll_data =
     [ShowToast ''something_went_wrong_on_our_end'' ''error'',
      RouterPush (Url ''https://meet.example.com/room-1'')]"
  by (simp add: instantBooking_onSuccess_def example_poll_data_def metadata_or_empty_def)

text \<open>
  C3, as the claim states it: once the stored expiry instant is in the past, a poll
  payload that arrives with a location must not trigger navigation. With the expiry one
  second before the clock reading, the response handler, which reads neither the expiry
  nor the clock, navigates to the location in the payload.
\<close>

theorem late_payload_navigates_counterexample:
  "hasInstantMeetingTokenExpired example_expired_state 2000
   \<and> filter is_navigation (instantBooking_onSuccess example_poll_data) =
       [RouterPush (Url ''https://meet.example.com/room-1'')]"
  by (simp add: hasInstantMeetingTokenExpired_def example_expired_state_def
      instantBooking_onSuccess_def example_poll_data_def metadata_or_empty_def)

text \<open>
  C3, amended. A successful instant creation stores the expiry instant it returns; from
  then on, at a render that reads the clock as \<open>now\<close>, the poll query's \<open>enabled\<close> option
  is true exactly when the booking id is non-zero and the expiry is not before \<open>now\<close>.
  With a stored expiry before the clock reading, and at every later reading of the same
  stored expiry, the token counts as expired and \<open>enabled\<close> is false, whatever the
  booking id. The response handler does not consult the expiry: a response handed to it
  with a non-empty location navigates to that location.
\<close>

theorem expiry_gates_enabled_only:
  "expiryTime (run (createInstantBookingMutation_onSuccess r) s) = Some (expires r)
   \<and> (instantBooking_enabled (run (createInstantBookingMutation_onSuccess r) s) now
        \<longleftrightarrow> bookingId r \<noteq> 0 \<and> \<not> expires r < now)
   \<and> (expiryTime s = Some e \<and> e < now \<and> now \<le> later
        \<longrightarrow> hasInstantMeetingTokenExpired s later \<and> \<not> instantBooking_enabled s later)
   \<and> (u \<noteq> [] \<longrightarrow>
        filter is_navigation
          (instantBooking_onSuccess
             \<lparr> booking = Some \<lparr> pb_metadata = Some (MetadataObject (Some u)) \<rparr> \<rparr>)
        = [RouterPush (Url u)])"
  by (simp add: createInstantBookingMutation_onSuccess_def hasInstantMeetingTokenExpired_def
      instantBooking_enabled_def parsed_bookingId_def instantBooking_onSuccess_def
      metadata_or_empty_def)

theorem expiry_gates_enabled_only_witness:
  "instantBooking_enabled
     (run (createInstantBookingMutation_onSuccess \<lparr> bookingId = 42, expires = 1000 \<rparr>)
        example_state) 999
   \<and> \<not> instantBooking_enabled
     (run (createInstantBookingMutation_onSuccess \<lparr> bookingId = 42, expires = 1000 \<rparr>)
        example_state) 2000
   \<and> hasInstantMeetingTokenExpired example_expired_state 2000
   \<and> \<not> instantBooking_enabled example_expired_state 3000
   \<and> filter is_navigation
        (instantBooking_onSuccess
           \<lparr> booking = Some \<lparr> pb_metadata = Some (MetadataObject (Some ''https://a.example'')) \<rparr> \<rparr>)
      = [RouterPush (Url ''https://a.example'')]"
  using expiry_gates_enabled_only
      [of "\<lparr> bookingId = 42, expires = 1000 \<rparr>" example_state 999 1000 3000 "''https://a.example''"]
    expiry_gates_enabled_only
      [of "\<lparr> bookingId = 42, expires = 1000 \<rparr>" example_state 2000 1000 3000 "''https://a.example''"]
    expiry_gates_enabled_only
      [of "\<lparr> bookingId = 42, expires = 1000 \<rparr>" example_expired_state 2000 1000 2000 "''https://a.example''"]
    expiry_gates_enabled_only
      [of "\<lparr> bookingId = 42, expires = 1000 \<rparr>" example_expired_state 2000 1000 3000 "''https://a.example''"]
  by (simp add: example_expired_state_def)

end
